theory Spec2Isabelle
  imports Main "HOL-Library.Sublist"
begin

section \<open>Text rendering used by the f-strings of \<open>sandbox.py\<close>\<close>

text \<open>
  Python renders an \<open>int\<close> inside an f-string with \<open>str\<close>: decimal digits, most
  significant first, a leading minus sign for a negative number.
\<close>

definition digit_char :: "nat \<Rightarrow> char" where
  "digit_char d = ''0123456789'' ! d"

fun digits :: "nat \<Rightarrow> string" where
  "digits n = (if n < 10 then [digit_char n] else digits (n div 10) @ [digit_char (n mod 10)])"

declare digits.simps [simp del]

definition str_int :: "int \<Rightarrow> string" where
  "str_int i = (if i < 0 then CHR ''-'' # digits (nat (- i)) else digits (nat i))"

text \<open>
  \<open>os.environ.get(name)\<close> is \<open>None\<close> for an unset variable, and an f-string renders
  \<open>None\<close> as the four characters \<open>None\<close>.
\<close>

fun str_optional :: "string option \<Rightarrow> string" where
  "str_optional None = ''None''"
| "str_optional (Some v) = v"

text \<open>
  \<open>x or y\<close> on an optional string: \<open>None\<close> and the empty string are both falsy.
\<close>

fun py_or :: "string option \<Rightarrow> string \<Rightarrow> string" where
  "py_or None y = y"
| "py_or (Some x) y = (if x = [] then y else x)"

text \<open>The truth value of an optional string, as \<open>not\<close>, \<open>and\<close> and \<open>bool\<close> take it.\<close>

fun truthy :: "string option \<Rightarrow> bool" where
  "truthy None = False"
| "truthy (Some v) = (v \<noteq> [])"

text \<open>\<open>sep.join(xs)\<close>.\<close>

fun join :: "string \<Rightarrow> string list \<Rightarrow> string" where
  "join sep [] = []"
| "join sep [x] = x"
| "join sep (x # y # ys) = x @ sep @ join sep (y # ys)"

section \<open>Data model\<close>

text \<open>
  The capability categories a manifest declares, as the callers name them
  (\<open>Permission.MCP_AC_NETWORK_CLIENT\<close> and so on).
\<close>

datatype Permission =
    MCP_AC_NETWORK_CLIENT
  | MCP_AC_FILESYSTEM_READ
  | MCP_AC_FILESYSTEM_WRITE
  | MCP_AC_SYSTEM_ENV_READ

text \<open>
  \<open>MCPManifest\<close> and its subclass \<open>DevMCPManifest\<close>. The \<open>Registry\<close> enumeration is
  declared outside the sources at hand, so the registry is held as the text the f-string
  of line 108 renders for it.
\<close>

record MCPManifest =
  name :: string
  description :: string
  registry :: string
  package_name :: string
  permissions :: "Permission list"

record DevMCPManifest = MCPManifest +
  code_mount :: string
  exec_command :: string

text \<open>\<open>isinstance(manifest, DevMCPManifest)\<close> is the case distinction of this type.\<close>

datatype manifest = Registry_manifest MCPManifest | Dev_manifest DevMCPManifest

fun manifest_fields :: "manifest \<Rightarrow> MCPManifest" where
  "manifest_fields (Registry_manifest m) = m"
| "manifest_fields (Dev_manifest d) = MCPManifest.truncate d"

text \<open>
  The concrete runtime permissions, with the fields \<open>sandbox.py\<close> and the callers use:
  \<open>DomainPort(domain, port)\<close>, \<open>HostPort(host, port)\<close>,
  \<open>FSAccess(path, container_path, read, write)\<close> and \<open>EnvironmentVariable(name)\<close>.
  The discriminators are the \<open>isinstance\<close> tests. The host of a \<open>HostPort\<close> is held as
  the text the f-string renders for it (callers pass both \<open>"127.0.0.1"\<close> and
  \<open>IPv4Address("3.72.68.174")\<close>). The field \<open>write\<close> is \<open>write_flag\<close> here, \<open>write\<close> being
  a keyword of Isabelle.
\<close>

datatype RuntimePermission =
    is_DomainPort: DomainPort (domain: string) (port: int)
  | is_HostPort: HostPort (host: string) (port: int)
  | is_FSAccess: FSAccess (path: string) (container_path: "string option") (read: bool) (write_flag: bool)
  | is_EnvironmentVariable: EnvironmentVariable (name: string)

datatype error =
    InvalidRuntimePermission "Permission list" "RuntimePermission list"
  | ValueError string
  | FileNotFoundError string

text \<open>
  What \<open>MCPServerStdio.__init__\<close> receives: the server's name, the \<open>params\<close> dictionary
  (\<open>command\<close> and \<open>args\<close>) and the session timeout. No process exists yet: the
  constructor only stores them.
\<close>

record MCPServerStdio =
  server_name :: string
  command :: string
  args :: "string list"
  client_session_timeout_seconds :: int

text \<open>
  Everything outside the constructor that the code reads or changes: the host
  environment (\<open>os.environ\<close>), the module global \<open>_sandbox_version\<close>, the host file
  system (which paths exist), the operator who answers consent requests, the consent
  requests issued so far, the lines printed so far, and the identifier
  \<open>_id_generator()\<close> hands out.
\<close>

record world =
  environ :: "string \<rightharpoonup> string"
  sandbox_version :: string
  path_exists :: "string \<Rightarrow> bool"
  operator :: "RuntimePermission \<Rightarrow> bool"
  prompts :: "RuntimePermission list"
  stdout :: "string list"
  generated_id :: string

definition set_sandbox_version :: "string \<Rightarrow> world \<Rightarrow> world" where
  "set_sandbox_version version w = w\<lparr>sandbox_version := version\<rparr>"

section \<open>Validation and consent\<close>

text \<open>
  Modelled from the spec: \<open>runtime_permissions.py\<close>, which defines the permission
  classes with \<open>validate_with_manifest_perms\<close> and \<open>get_user_consent\<close>, is not among
  the sources. The spec: every concrete permission maps to exactly one capability
  category (network egress by name or by address to network-client, filesystem access
  to filesystem-write when its write flag is set and to filesystem-read otherwise,
  environment pass-through to system-environment-read), and a permission is covered
  when its category is among the categories the manifest declares.
\<close>

fun category :: "RuntimePermission \<Rightarrow> Permission" where
  "category (DomainPort d p) = MCP_AC_NETWORK_CLIENT"
| "category (HostPort h p) = MCP_AC_NETWORK_CLIENT"
| "category (FSAccess pa cp r w) =
     (if w then MCP_AC_FILESYSTEM_WRITE else MCP_AC_FILESYSTEM_READ)"
| "category (EnvironmentVariable n) = MCP_AC_SYSTEM_ENV_READ"

definition validate_with_manifest_perms :: "RuntimePermission \<Rightarrow> Permission list \<Rightarrow> bool" where
  "validate_with_manifest_perms p perms = (category p \<in> set perms)"

text \<open>
  Modelled from the spec: \<open>get_user_consent\<close> (in the absent \<open>runtime_permissions.py\<close>)
  obtains an explicit allow or deny decision from the operator for one concrete
  permission. The request is recorded in \<open>prompts\<close>; the decision is the operator's.
\<close>

definition get_user_consent :: "RuntimePermission \<Rightarrow> world \<Rightarrow> bool \<times> world" where
  "get_user_consent p w = (operator w p, w\<lparr>prompts := prompts w @ [p]\<rparr>)"

text \<open>
  Line 51, \<open>[p for p in runtime_permissions if p.get_user_consent()]\<close>: one request per
  permission, in list order.
\<close>

fun consented_perms :: "RuntimePermission list \<Rightarrow> world \<Rightarrow> RuntimePermission list \<times> world" where
  "consented_perms [] w = ([], w)"
| "consented_perms (p # ps) w =
     (case get_user_consent p w of (granted, w1) \<Rightarrow>
        (case consented_perms ps w1 of (rest, w2) \<Rightarrow>
           (if granted then p # rest else rest, w2)))"

section \<open>The constructor \<open>SandboxedMCPStdio.__init__\<close>\<close>

text \<open>Lines 41 to 45: the permissions the manifest does not cover.\<close>

definition illegal :: "manifest \<Rightarrow> RuntimePermission list \<Rightarrow> RuntimePermission list" where
  "illegal m runtime_permissions =
     filter (\<lambda>p. \<not> validate_with_manifest_perms p (permissions (manifest_fields m)))
       runtime_permissions"

text \<open>Lines 53 to 60: domain entries first, then host entries, joined by commas.\<close>

definition allowed_egress :: "RuntimePermission list \<Rightarrow> string" where
  "allowed_egress cp =
     join '',''
       (map (\<lambda>p. domain p @ '':'' @ str_int (port p)) (filter is_DomainPort cp)
        @ map (\<lambda>p. host p @ '':'' @ str_int (port p)) (filter is_HostPort cp))"

text \<open>Lines 62 to 73: the extra arguments of a development manifest.\<close>

fun add_args :: "manifest \<Rightarrow> string list" where
  "add_args (Dev_manifest d) =
     [''--mount'', ''type=bind,src='' @ code_mount d @ '',dst=/sandbox'',
      ''-e'', ''PRE_INSTALLED=true'',
      ''-e'', ''EXE='' @ exec_command d]"
| "add_args (Registry_manifest m) = []"

text \<open>Lines 82 to 93: one \<open>--mount\<close> pair per consented \<open>FSAccess\<close>.\<close>

definition fs_args :: "RuntimePermission list \<Rightarrow> string list" where
  "fs_args cp =
     concat (map (\<lambda>fs. [''--mount'',
                         ''type=bind,src='' @ path fs @ '',dst='' @ py_or (container_path fs) (path fs)
                           @ (if write_flag fs then [] else '',readonly'')])
               (filter is_FSAccess cp))"

text \<open>Line 94: the allow-list flag, only when the joined string is non-empty.\<close>

definition egress_args :: "RuntimePermission list \<Rightarrow> string list" where
  "egress_args cp =
     (if allowed_egress cp \<noteq> [] then [''-e'', ''ALLOWED_EGRESS='' @ allowed_egress cp] else [])"

text \<open>Lines 95 to 102: one \<open>-e\<close> pair per consented \<open>EnvironmentVariable\<close>.\<close>

definition env_args :: "(string \<rightharpoonup> string) \<Rightarrow> RuntimePermission list \<Rightarrow> string list" where
  "env_args env cp =
     concat (map (\<lambda>p. [''-e'', name p @ ''='' @ str_optional (env (name p))])
               (filter is_EnvironmentVariable cp))"

text \<open>
  Lines 103 to 106: the static variables. The dictionary is an association list in
  insertion order, which is the order \<open>items()\<close> yields.
\<close>

definition static_args :: "(string \<times> string) list \<Rightarrow> string list" where
  "static_args static_environment_vars =
     concat (map (\<lambda>(k, v). [''-e'', k @ ''='' @ v]) static_environment_vars)"

text \<open>Lines 75 to 110: the argument vector.\<close>

definition build_args ::
  "manifest \<Rightarrow> string list option \<Rightarrow> (string \<times> string) list \<Rightarrow> bool \<Rightarrow>
   RuntimePermission list \<Rightarrow> world \<Rightarrow> string list" where
  "build_args m runtime_args static_environment_vars remove_container_after_run cp w =
     [''run'']
     @ (if remove_container_after_run then [''--rm''] else [])
     @ [''-i'', ''--cap-add=NET_ADMIN'', ''-e'',
        ''PACKAGE='' @ package_name (manifest_fields m)]
     @ fs_args cp
     @ egress_args cp
     @ env_args (environ w) cp
     @ static_args static_environment_vars
     @ add_args m
     @ [''ghcr.io/guardiagent/mcp-sandbox-'' @ registry (manifest_fields m)
        @ '':'' @ sandbox_version w]
     @ (case runtime_args of Some ra \<Rightarrow> ra | None \<Rightarrow> [])"

text \<open>
  The constructor. A raise is \<open>Inl\<close>; the world is returned in both cases, so that what
  happened before a raise stays visible.
\<close>

definition SandboxedMCPStdio_init ::
  "manifest \<Rightarrow> string option \<Rightarrow> string list option \<Rightarrow> RuntimePermission list \<Rightarrow>
   (string \<times> string) list \<Rightarrow> int \<Rightarrow> bool \<Rightarrow> world \<Rightarrow> (error + MCPServerStdio) \<times> world" where
  "SandboxedMCPStdio_init m name_arg runtime_args runtime_permissions static_environment_vars
     timeout remove_container_after_run w =
     (if illegal m runtime_permissions \<noteq> [] then
        (Inl (InvalidRuntimePermission (permissions (manifest_fields m))
                (illegal m runtime_permissions)), w)
      else
        (case consented_perms runtime_permissions w of (cp, w1) \<Rightarrow>
           (Inr \<lparr> server_name =
                   py_or name_arg
                     (MCPManifest.name (manifest_fields m) @ '' - '' @ generated_id w1),
                 command = ''docker'',
                 args = build_args m runtime_args static_environment_vars
                          remove_container_after_run cp w1,
                 client_session_timeout_seconds = timeout \<rparr>, w1)))"

section \<open>The factory \<open>create_travel_mcp_server\<close> of \<open>travel_server.py\<close>\<close>

text \<open>
  \<open>travel_manifest\<close>, lines 30 to 41. Two texts are fixed outside the sources at hand
  and are parameters here: the rendering of \<open>Registry.PYPI\<close>, and
  \<open>str(TRAVEL_SERVER_PATH.resolve())\<close>, which depends on where the module is installed.
  The launch command contains two apostrophes, written \<open>CHR 0x27\<close>.
\<close>

definition travel_manifest :: "string \<Rightarrow> string \<Rightarrow> manifest" where
  "travel_manifest pypi resolved_path =
     Dev_manifest
       \<lparr> MCPManifest.name = ''Travel API Server'',
         description = ''Flights, Hotels, Weather, Attractions - all in one'',
         registry = pypi,
         package_name = ''mcp-server-travel'',
         permissions = [MCP_AC_NETWORK_CLIENT, MCP_AC_SYSTEM_ENV_READ],
         code_mount = resolved_path,
         exec_command =
           ''sh -c '' @ [CHR 0x27]
           @ ''pip install -q --break-system-packages /sandbox >&2 && python3 -m mcp_server_travel''
           @ [CHR 0x27] \<rparr>"

text \<open>Lines 76 to 106 and 109 to 113: the requested permissions.\<close>

definition travel_runtime_perms :: "bool \<Rightarrow> RuntimePermission list" where
  "travel_runtime_perms has_amadeus =
     [DomainPort ''test.api.amadeus.com'' 443,
      DomainPort ''api.amadeus.com'' 443,
      DomainPort ''amadeus-self-service-test.apigee.net'' 443,
      DomainPort ''amadeus-self-service.dn.apigee.net'' 443,
      HostPort ''3.72.68.174'' 443,
      HostPort ''3.120.238.1'' 443,
      HostPort ''3.254.195.161'' 443,
      HostPort ''18.158.72.68'' 443,
      HostPort ''18.193.119.72'' 443,
      HostPort ''18.194.228.233'' 443,
      HostPort ''34.241.251.57'' 443,
      HostPort ''35.159.123.231'' 443,
      HostPort ''63.179.6.145'' 443,
      DomainPort ''api.openweathermap.org'' 443,
      DomainPort ''overpass-api.de'' 443,
      DomainPort ''pypi.org'' 443,
      DomainPort ''files.pythonhosted.org'' 443,
      EnvironmentVariable ''OPENWEATHER_API_KEY'']
     @ (if has_amadeus
        then [EnvironmentVariable ''AMADEUS_API_KEY'', EnvironmentVariable ''AMADEUS_API_SECRET'']
        else [])"

text \<open>
  Lines 44 to 120. \<open>TRAVEL_SERVER_PATH\<close> is computed from the module's location and is
  a parameter. The constructor is called with its defaults for the static variables
  (none), the timeout (60) and the removal flag (true).
\<close>

definition create_travel_mcp_server ::
  "string \<Rightarrow> string \<Rightarrow> string \<Rightarrow> string \<Rightarrow> world \<Rightarrow> (error + MCPServerStdio) \<times> world" where
  "create_travel_mcp_server name_arg TRAVEL_SERVER_PATH pypi resolved_path w =
     (if \<not> truthy (environ w ''OPENWEATHER_API_KEY'') then
        (Inl (ValueError ''Missing OPENWEATHER_API_KEY environment variable''), w)
      else
        (let has_amadeus = (truthy (environ w ''AMADEUS_API_KEY'')
                             \<and> truthy (environ w ''AMADEUS_API_SECRET''));
             w1 = (if \<not> has_amadeus
                   then w\<lparr>stdout := stdout w
                          @ [''Warning: Amadeus credentials not set - will use fallback estimates'']\<rparr>
                   else w)
         in if \<not> path_exists w1 TRAVEL_SERVER_PATH then
              (Inl (FileNotFoundError (''Travel server not found at '' @ TRAVEL_SERVER_PATH)), w1)
            else
              SandboxedMCPStdio_init (travel_manifest pypi resolved_path) (Some name_arg)
                (Some []) (travel_runtime_perms has_amadeus) [] 60 True w1))"

section \<open>Example inputs\<close>

definition example_world :: world where
  "example_world =
     \<lparr> environ = [''HOME'' \<mapsto> ''/root''],
       sandbox_version = ''latest'',
       path_exists = (\<lambda>p. p = ''/data''),
       operator = (\<lambda>p. True),
       prompts = [],
       stdout = [],
       generated_id = ''a1b2c3'' \<rparr>"

definition example_manifest :: "Permission list \<Rightarrow> manifest" where
  "example_manifest perms =
     Registry_manifest
       \<lparr> MCPManifest.name = ''Example'', description = ''An example package'', registry = ''npm'',
         package_name = ''example-pkg'', permissions = perms \<rparr>"

definition example_dev_manifest :: "Permission list \<Rightarrow> manifest" where
  "example_dev_manifest perms =
     Dev_manifest
       \<lparr> MCPManifest.name = ''Example'', description = ''An example package'', registry = ''pypi'',
         package_name = ''example-pkg'', permissions = perms,
         code_mount = ''/home/dev/example'', exec_command = ''python3 -m example'' \<rparr>"

section \<open>Facts about validation and consent\<close>

lemma consented_perms_eq:
  "consented_perms ps w = (filter (operator w) ps, w\<lparr>prompts := prompts w @ ps\<rparr>)"
  by (induction ps arbitrary: w) (simp_all add: get_user_consent_def)

lemma illegal_eq:
  "illegal m P = filter (\<lambda>p. category p \<notin> set (permissions (manifest_fields m))) P"
  by (simp add: illegal_def validate_with_manifest_perms_def)

lemma illegal_Nil_iff:
  "illegal m P = [] \<longleftrightarrow> (\<forall>p\<in>set P. category p \<in> set (permissions (manifest_fields m)))"
  by (auto simp: illegal_eq filter_empty_conv)

lemma init_raises:
  "illegal m P \<noteq> [] \<Longrightarrow>
   SandboxedMCPStdio_init m nm ra P sv t rm w =
     (Inl (InvalidRuntimePermission (permissions (manifest_fields m)) (illegal m P)), w)"
  by (simp add: SandboxedMCPStdio_init_def)

lemma init_builds:
  "illegal m P = [] \<Longrightarrow>
   SandboxedMCPStdio_init m nm ra P sv t rm w =
     (Inr \<lparr> server_name = py_or nm (MCPManifest.name (manifest_fields m) @ '' - '' @ generated_id w),
            command = ''docker'',
            args = build_args m ra sv rm (filter (operator w) P) w,
            client_session_timeout_seconds = t \<rparr>,
      w\<lparr>prompts := prompts w @ P\<rparr>)"
  by (simp add: SandboxedMCPStdio_init_def consented_perms_eq build_args_def)

lemma join_Nil_iff:
  "\<forall>x\<in>set xs. x \<noteq> [] \<Longrightarrow> join sep xs = [] \<longleftrightarrow> xs = []"
  by (induction sep xs rule: join.induct) auto

lemma allowed_egress_Nil_iff:
  "allowed_egress cp = [] \<longleftrightarrow> (\<forall>p\<in>set cp. \<not> is_DomainPort p \<and> \<not> is_HostPort p)"
proof -
  let ?es = "map (\<lambda>p. domain p @ '':'' @ str_int (port p)) (filter is_DomainPort cp)
        @ map (\<lambda>p. host p @ '':'' @ str_int (port p)) (filter is_HostPort cp)"
  have "\<forall>x\<in>set ?es. x \<noteq> []" by auto
  then have "join '','' ?es = [] \<longleftrightarrow> ?es = []" by (rule join_Nil_iff)
  then show ?thesis by (auto simp: allowed_egress_def filter_empty_conv)
qed

lemma permissions_truncate [simp]: "permissions (MCPManifest.truncate d) = permissions d"
  and package_name_truncate [simp]: "package_name (MCPManifest.truncate d) = package_name d"
  and registry_truncate [simp]: "registry (MCPManifest.truncate d) = registry d"
  and name_truncate [simp]: "MCPManifest.name (MCPManifest.truncate d) = MCPManifest.name d"
  by (simp_all add: MCPManifest.truncate_def)

lemma str_int_443: "str_int 443 = ''443''"
  by (simp add: str_int_def digits.simps digit_char_def)

lemma fst_consented_perms [simp]: "fst (consented_perms P w) = filter (operator w) P"
  by (simp add: consented_perms_eq)

section \<open>Validation against the manifest\<close>

text \<open>
  Claim C1. The constructor raises the invalid-permission error exactly when some
  requested permission has a category the manifest does not declare. When it raises, the
  error carries the manifest's categories and exactly the uncovered permissions, in
  request order; the world is unchanged, so no consent request was issued, and no
  server object (hence nothing to launch) is returned. When every permission is covered
  it returns a server. An empty request list never raises.
\<close>

theorem init_invalid_runtime_permission:
  "((\<exists>e w'. SandboxedMCPStdio_init m nm ra P sv t rm w = (Inl e, w'))
      \<longleftrightarrow> (\<exists>p\<in>set P. category p \<notin> set (permissions (manifest_fields m))))
   \<and> ((\<exists>p\<in>set P. category p \<notin> set (permissions (manifest_fields m))) \<longrightarrow>
        SandboxedMCPStdio_init m nm ra P sv t rm w =
          (Inl (InvalidRuntimePermission (permissions (manifest_fields m))
                  (filter (\<lambda>p. category p \<notin> set (permissions (manifest_fields m))) P)), w))
   \<and> ((\<forall>p\<in>set P. category p \<in> set (permissions (manifest_fields m))) \<longrightarrow>
        (\<exists>srv. SandboxedMCPStdio_init m nm ra P sv t rm w =
                  (Inr srv, w\<lparr>prompts := prompts w @ P\<rparr>)))
   \<and> (\<exists>srv. SandboxedMCPStdio_init m nm ra [] sv t rm w = (Inr srv, w))"
proof (intro conjI impI)
  show "(\<exists>e w'. SandboxedMCPStdio_init m nm ra P sv t rm w = (Inl e, w'))
      \<longleftrightarrow> (\<exists>p\<in>set P. category p \<notin> set (permissions (manifest_fields m)))"
  proof (cases "illegal m P = []")
    case True
    then show ?thesis using illegal_Nil_iff [of m P] by (auto simp: init_builds)
  next
    case False
    then show ?thesis using illegal_Nil_iff [of m P] by (auto simp: init_raises)
  qed
next
  assume "\<exists>p\<in>set P. category p \<notin> set (permissions (manifest_fields m))"
  then have "illegal m P \<noteq> []" by (auto simp: illegal_Nil_iff)
  then show "SandboxedMCPStdio_init m nm ra P sv t rm w =
          (Inl (InvalidRuntimePermission (permissions (manifest_fields m))
                  (filter (\<lambda>p. category p \<notin> set (permissions (manifest_fields m))) P)), w)"
    by (simp add: init_raises illegal_eq)
next
  assume "\<forall>p\<in>set P. category p \<in> set (permissions (manifest_fields m))"
  then have "illegal m P = []" by (simp add: illegal_Nil_iff)
  then show "\<exists>srv. SandboxedMCPStdio_init m nm ra P sv t rm w =
                  (Inr srv, w\<lparr>prompts := prompts w @ P\<rparr>)"
    by (simp add: init_builds)
next
  have "illegal m [] = []" by (simp add: illegal_def)
  then show "\<exists>srv. SandboxedMCPStdio_init m nm ra [] sv t rm w = (Inr srv, w)"
    by (simp add: init_builds)
qed

text \<open>
  The scenario of the specification: the manifest declares filesystem-read only and the
  request is one filesystem permission with the write flag set. The constructor raises,
  names that permission, and issues no consent request. The same request without the
  write flag is covered and yields a server.
\<close>

theorem init_invalid_runtime_permission_witness:
  "(\<exists>p\<in>set [FSAccess ''/data'' None True True].
      category p \<notin> set (permissions (manifest_fields (example_manifest [MCP_AC_FILESYSTEM_READ]))))
   \<and> SandboxedMCPStdio_init (example_manifest [MCP_AC_FILESYSTEM_READ]) None None
        [FSAccess ''/data'' None True True] [] 60 True example_world =
       (Inl (InvalidRuntimePermission [MCP_AC_FILESYSTEM_READ] [FSAccess ''/data'' None True True]),
        example_world)
   \<and> prompts example_world = []
   \<and> category (FSAccess ''/data'' None True False)
       \<in> set (permissions (manifest_fields (example_manifest [MCP_AC_FILESYSTEM_READ])))
   \<and> (\<exists>srv. SandboxedMCPStdio_init (example_manifest [MCP_AC_FILESYSTEM_READ]) None None
               [FSAccess ''/data'' None True False] [] 60 True example_world =
             (Inr srv, example_world\<lparr>prompts := [FSAccess ''/data'' None True False]\<rparr>))"
  using init_invalid_runtime_permission
    [of "example_manifest [MCP_AC_FILESYSTEM_READ]" None None
        "[FSAccess ''/data'' None True True]" "[]" 60 True example_world]
    init_invalid_runtime_permission
    [of "example_manifest [MCP_AC_FILESYSTEM_READ]" None None
        "[FSAccess ''/data'' None True False]" "[]" 60 True example_world]
  by (simp add: example_manifest_def example_world_def)

section \<open>The egress allow-list\<close>

text \<open>
  \<open>join\<close> without recursion on the separator: the first text, then every further text
  with the separator in front of it.
\<close>

lemma join_explicit:
  "join sep xs = (case xs of [] \<Rightarrow> [] | x # ys \<Rightarrow> x @ concat (map (\<lambda>y. sep @ y) ys))"
  by (induction sep xs rule: join.induct) simp_all

lemma length_two_filters:
  assumes "\<And>x. \<not> (Q x \<and> R x)"
  shows "length (filter (\<lambda>x. Q x \<and> A x) xs) + length (filter (\<lambda>x. R x \<and> A x) xs)
         = length (filter (\<lambda>x. A x \<and> (Q x \<or> R x)) xs)"
proof (induction xs)
  case Nil
  show ?case by simp
next
  case (Cons x xs)
  from assms [of x] Cons show ?case by (cases "Q x"; cases "R x"; cases "A x") simp_all
qed

text \<open>
  Claim C3. For every validated request list and every operator, the allow-list string
  the constructor builds is empty when no network permission was granted, and otherwise
  it is the pair of the first granted network permission followed, for each further one,
  by a comma and its pair: the \<open>domain:port\<close> pairs of the granted \<open>DomainPort\<close>
  permissions in request order, then the \<open>host:port\<close> pairs of the granted \<open>HostPort\<close>
  permissions in request order. When there is at least one, that string is passed as
  \<open>ALLOWED_EGRESS\<close> right after the mounts. The permissions that contribute are exactly
  the requested network permissions the operator granted: a denied permission is not
  among them, and nothing outside the request list is.
\<close>

theorem egress_allow_list:
  assumes "\<forall>p\<in>set P. category p \<in> set (permissions (manifest_fields m))"
  shows "\<exists>srv. SandboxedMCPStdio_init m nm ra P sv t rm w = (Inr srv, w\<lparr>prompts := prompts w @ P\<rparr>)
     \<and> (let cp = fst (consented_perms P w);
             net = filter (\<lambda>p. is_DomainPort p \<and> operator w p) P
                   @ filter (\<lambda>p. is_HostPort p \<and> operator w p) P;
             pair = (\<lambda>p. (if is_DomainPort p then domain p else host p) @ '':'' @ str_int (port p));
             egress = (case net of
                         [] \<Rightarrow> []
                       | p # ps \<Rightarrow> pair p @ concat (map (\<lambda>q. '','' @ pair q) ps))
         in allowed_egress cp = egress
            \<and> (net \<noteq> [] \<longrightarrow>
                 args srv =
                   [''run''] @ (if rm then [''--rm''] else [])
                   @ [''-i'', ''--cap-add=NET_ADMIN'', ''-e'',
                      ''PACKAGE='' @ package_name (manifest_fields m)]
                   @ fs_args cp
                   @ [''-e'', ''ALLOWED_EGRESS='' @ egress]
                   @ env_args (environ w) cp @ static_args sv @ add_args m
                   @ [''ghcr.io/guardiagent/mcp-sandbox-'' @ registry (manifest_fields m)
                      @ '':'' @ sandbox_version w]
                   @ (case ra of Some xs \<Rightarrow> xs | None \<Rightarrow> []))
            \<and> (\<forall>p\<in>set net. p \<in> set P \<and> operator w p \<and> (is_DomainPort p \<or> is_HostPort p))
            \<and> (\<forall>p\<in>set P. operator w p \<and> (is_DomainPort p \<or> is_HostPort p) \<longrightarrow> p \<in> set net)
            \<and> length net = length (filter (\<lambda>p. operator w p \<and> (is_DomainPort p \<or> is_HostPort p)) P)
            \<and> (\<forall>p\<in>set P. \<not> operator w p \<longrightarrow> p \<notin> set net))"
proof -
  define pair where
    "pair = (\<lambda>p. (if is_DomainPort p then domain p else host p) @ '':'' @ str_int (port p))"
  define net where
    "net = filter (\<lambda>p. is_DomainPort p \<and> operator w p) P
           @ filter (\<lambda>p. is_HostPort p \<and> operator w p) P"
  define egress where
    "egress = (case net of [] \<Rightarrow> [] | p # ps \<Rightarrow> pair p @ concat (map (\<lambda>q. '','' @ pair q) ps))"
  define cp where "cp = filter (operator w) P"
  define srv where
    "srv = \<lparr> server_name = py_or nm (MCPManifest.name (manifest_fields m) @ '' - '' @ generated_id w),
             command = ''docker'',
             args = build_args m ra sv rm cp w,
             client_session_timeout_seconds = t \<rparr>"
  have ill: "illegal m P = []" using assms by (simp add: illegal_Nil_iff)
  have dom: "map (\<lambda>p. domain p @ '':'' @ str_int (port p)) (filter is_DomainPort cp)
             = map pair (filter (\<lambda>p. is_DomainPort p \<and> operator w p) P)"
    unfolding cp_def pair_def filter_filter
    by (rule map_cong) (simp_all add: conj_commute)
  have hst: "map (\<lambda>p. host p @ '':'' @ str_int (port p)) (filter is_HostPort cp)
             = map pair (filter (\<lambda>p. is_HostPort p \<and> operator w p) P)"
    unfolding cp_def pair_def filter_filter
    by (rule map_cong) (auto simp: conj_commute RuntimePermission.is_HostPort_def)
  have "allowed_egress cp = join '','' (map pair net)"
    by (simp only: allowed_egress_def dom hst map_append net_def)
  also have "\<dots> = egress"
    unfolding join_explicit egress_def by (cases net) (simp_all add: comp_def)
  finally have eg: "allowed_egress cp = egress" .
  have ne: "net \<noteq> [] \<Longrightarrow> allowed_egress cp \<noteq> []"
    unfolding net_def cp_def by (auto simp: allowed_egress_Nil_iff filter_empty_conv)
  have a: "net \<noteq> [] \<Longrightarrow> egress_args cp = [''-e'', ''ALLOWED_EGRESS='' @ egress]"
    using ne eg by (simp add: egress_args_def)
  have b: "SandboxedMCPStdio_init m nm ra P sv t rm w = (Inr srv, w\<lparr>prompts := prompts w @ P\<rparr>)"
    unfolding srv_def cp_def by (rule init_builds [OF ill])
  have c: "\<forall>p\<in>set net. p \<in> set P \<and> operator w p \<and> (is_DomainPort p \<or> is_HostPort p)"
    unfolding net_def by auto
  have c': "\<forall>p\<in>set P. operator w p \<and> (is_DomainPort p \<or> is_HostPort p) \<longrightarrow> p \<in> set net"
    unfolding net_def by auto
  have dd: "\<not> (is_DomainPort p \<and> is_HostPort p)" for p
    by (cases p) simp_all
  have l: "length net = length (filter (\<lambda>p. operator w p \<and> (is_DomainPort p \<or> is_HostPort p)) P)"
    unfolding net_def length_append by (rule length_two_filters) (rule dd)
  have d: "\<forall>p\<in>set P. \<not> operator w p \<longrightarrow> p \<notin> set net"
    unfolding net_def by auto
  have e: "net \<noteq> [] \<longrightarrow> args srv =
                   [''run''] @ (if rm then [''--rm''] else [])
                   @ [''-i'', ''--cap-add=NET_ADMIN'', ''-e'',
                      ''PACKAGE='' @ package_name (manifest_fields m)]
                   @ fs_args cp
                   @ [''-e'', ''ALLOWED_EGRESS='' @ egress]
                   @ env_args (environ w) cp @ static_args sv @ add_args m
                   @ [''ghcr.io/guardiagent/mcp-sandbox-'' @ registry (manifest_fields m)
                      @ '':'' @ sandbox_version w]
                   @ (case ra of Some xs \<Rightarrow> xs | None \<Rightarrow> [])"
    using a by (simp add: build_args_def srv_def)
  have "SandboxedMCPStdio_init m nm ra P sv t rm w = (Inr srv, w\<lparr>prompts := prompts w @ P\<rparr>)
     \<and> allowed_egress cp = egress
     \<and> (net \<noteq> [] \<longrightarrow> args srv =
                   [''run''] @ (if rm then [''--rm''] else [])
                   @ [''-i'', ''--cap-add=NET_ADMIN'', ''-e'',
                      ''PACKAGE='' @ package_name (manifest_fields m)]
                   @ fs_args cp
                   @ [''-e'', ''ALLOWED_EGRESS='' @ egress]
                   @ env_args (environ w) cp @ static_args sv @ add_args m
                   @ [''ghcr.io/guardiagent/mcp-sandbox-'' @ registry (manifest_fields m)
                      @ '':'' @ sandbox_version w]
                   @ (case ra of Some xs \<Rightarrow> xs | None \<Rightarrow> []))
     \<and> (\<forall>p\<in>set net. p \<in> set P \<and> operator w p \<and> (is_DomainPort p \<or> is_HostPort p))
     \<and> (\<forall>p\<in>set P. operator w p \<and> (is_DomainPort p \<or> is_HostPort p) \<longrightarrow> p \<in> set net)
     \<and> length net = length (filter (\<lambda>p. operator w p \<and> (is_DomainPort p \<or> is_HostPort p)) P)
     \<and> (\<forall>p\<in>set P. \<not> operator w p \<longrightarrow> p \<notin> set net)"
    by (intro conjI b eg c c' l d e)
  then show ?thesis
    unfolding Let_def fst_consented_perms cp_def egress_def net_def pair_def
    by (rule exI [of _ srv])
qed

lemma example_validated_network:
  "\<forall>p\<in>set [DomainPort ''db.example.com'' 443].
     category p \<in> set (permissions (manifest_fields (example_manifest [MCP_AC_NETWORK_CLIENT])))"
  by (simp add: example_manifest_def)

lemma example_validated_three:
  "\<forall>p\<in>set [DomainPort ''db.example.com'' 443, DomainPort ''evil.example.com'' 443,
            HostPort ''10.0.0.5'' 8080].
     category p \<in> set (permissions (manifest_fields (example_manifest [MCP_AC_NETWORK_CLIENT])))"
  by (simp add: example_manifest_def)

lemma str_int_8080: "str_int 8080 = ''8080''"
  by (simp add: str_int_def digits.simps digit_char_def)

text \<open>
  Two instances. The scenario of the specification: the manifest declares the
  network-client category, the request is the one domain permission \<open>db.example.com\<close>
  port 443 and the operator grants it; the allow-list string is exactly
  \<open>db.example.com:443\<close>. And a request of three network permissions of which the
  operator denies the second: the string holds the two granted pairs with one comma
  between them, and no pair of the denied permission.
\<close>

theorem egress_allow_list_witness:
  "category (DomainPort ''db.example.com'' 443)
     \<in> set (permissions (manifest_fields (example_manifest [MCP_AC_NETWORK_CLIENT])))
   \<and> allowed_egress (fst (consented_perms [DomainPort ''db.example.com'' 443] example_world))
       = ''db.example.com:443''
   \<and> (\<exists>srv. fst (SandboxedMCPStdio_init (example_manifest [MCP_AC_NETWORK_CLIENT]) None None
                    [DomainPort ''db.example.com'' 443] [] 60 True example_world) = Inr srv
          \<and> args srv = [''run'', ''--rm'', ''-i'', ''--cap-add=NET_ADMIN'', ''-e'',
                          ''PACKAGE=example-pkg'', ''-e'', ''ALLOWED_EGRESS=db.example.com:443'',
                          ''ghcr.io/guardiagent/mcp-sandbox-npm:latest''])
   \<and> category (DomainPort ''evil.example.com'' 443)
       \<in> set (permissions (manifest_fields (example_manifest [MCP_AC_NETWORK_CLIENT])))
   \<and> category (HostPort ''10.0.0.5'' 8080)
       \<in> set (permissions (manifest_fields (example_manifest [MCP_AC_NETWORK_CLIENT])))
   \<and> operator (example_world\<lparr>operator := (\<lambda>p. p \<noteq> DomainPort ''evil.example.com'' 443)\<rparr>)
        (DomainPort ''db.example.com'' 443)
   \<and> \<not> operator (example_world\<lparr>operator := (\<lambda>p. p \<noteq> DomainPort ''evil.example.com'' 443)\<rparr>)
        (DomainPort ''evil.example.com'' 443)
   \<and> operator (example_world\<lparr>operator := (\<lambda>p. p \<noteq> DomainPort ''evil.example.com'' 443)\<rparr>)
        (HostPort ''10.0.0.5'' 8080)
   \<and> allowed_egress (fst (consented_perms
         [DomainPort ''db.example.com'' 443, DomainPort ''evil.example.com'' 443,
          HostPort ''10.0.0.5'' 8080]
         (example_world\<lparr>operator := (\<lambda>p. p \<noteq> DomainPort ''evil.example.com'' 443)\<rparr>)))
       = ''db.example.com:443,10.0.0.5:8080''
   \<and> (\<exists>srv. fst (SandboxedMCPStdio_init (example_manifest [MCP_AC_NETWORK_CLIENT]) None None
                    [DomainPort ''db.example.com'' 443, DomainPort ''evil.example.com'' 443,
                     HostPort ''10.0.0.5'' 8080] [] 60 True
                    (example_world\<lparr>operator := (\<lambda>p. p \<noteq> DomainPort ''evil.example.com'' 443)\<rparr>))
               = Inr srv
          \<and> args srv = [''run'', ''--rm'', ''-i'', ''--cap-add=NET_ADMIN'', ''-e'',
                          ''PACKAGE=example-pkg'', ''-e'',
                          ''ALLOWED_EGRESS=db.example.com:443,10.0.0.5:8080'',
                          ''ghcr.io/guardiagent/mcp-sandbox-npm:latest''])"
  using egress_allow_list [OF example_validated_network, of None None "[]" 60 True example_world]
    egress_allow_list [OF example_validated_three, of None None "[]" 60 True
      "example_world\<lparr>operator := (\<lambda>p. p \<noteq> DomainPort ''evil.example.com'' 443)\<rparr>"]
  by (auto simp: Let_def example_manifest_def example_world_def str_int_443 str_int_8080
        fs_args_def get_user_consent_def env_args_def static_args_def)

lemma set_concat_pairs:
  "a \<in> set (concat (map (\<lambda>x. [u, f x]) xs)) \<longleftrightarrow> (xs \<noteq> [] \<and> a = u) \<or> (\<exists>x\<in>set xs. a = f x)"
  by (induction xs) auto

lemma fs_args_no_egress:
  "a \<in> set (fs_args cp) \<Longrightarrow> \<not> prefix ''ALLOWED_EGRESS='' a"
  unfolding fs_args_def set_concat_pairs by auto

lemma add_args_no_egress:
  "a \<in> set (add_args m) \<Longrightarrow> \<not> prefix ''ALLOWED_EGRESS='' a"
  by (cases m) auto

text \<open>
  Claim C10, as stated, fails: with no network permission requested or granted, a static
  variable named \<open>ALLOWED_EGRESS\<close> (lines 103 to 106) puts an \<open>ALLOWED_EGRESS=\<close> pair
  into the argument vector.
\<close>

theorem egress_flag_from_static_variable:
  "\<not> (\<exists>p\<in>set (fst (consented_perms [] example_world)). is_DomainPort p \<or> is_HostPort p)
   \<and> SandboxedMCPStdio_init (example_manifest []) None None []
        [(''ALLOWED_EGRESS'', ''evil.example.com:443'')] 60 True example_world
      = (Inr \<lparr> server_name = ''Example - a1b2c3'',
               command = ''docker'',
               args = [''run'', ''--rm'', ''-i'', ''--cap-add=NET_ADMIN'', ''-e'',
                       ''PACKAGE=example-pkg'',
                       ''-e'', ''ALLOWED_EGRESS=evil.example.com:443'',
                       ''ghcr.io/guardiagent/mcp-sandbox-npm:latest''],
               client_session_timeout_seconds = 60 \<rparr>,
         example_world)
   \<and> prefix ''ALLOWED_EGRESS='' ''ALLOWED_EGRESS=evil.example.com:443''"
  by (simp add: SandboxedMCPStdio_init_def illegal_def
        example_manifest_def example_world_def build_args_def
        fs_args_def egress_args_def allowed_egress_def env_args_def static_args_def)

text \<open>
  Claim C10, amended. The pair the constructor itself emits for the allow-list (line 94)
  is present if and only if the operator granted at least one network permission; it is
  then never empty. Without a granted network permission the argument vector passes
  from the mounts directly to the environment pass-through: that pair is left out, not
  passed with an empty value. Where no pass-through variable, static variable or
  runtime argument itself begins with \<open>ALLOWED_EGRESS=\<close>, no element of the whole vector
  does unless a network permission was granted.
\<close>

theorem egress_flag_presence:
  assumes "\<forall>p\<in>set P. category p \<in> set (permissions (manifest_fields m))"
  shows "\<exists>srv. SandboxedMCPStdio_init m nm ra P sv t rm w = (Inr srv, w\<lparr>prompts := prompts w @ P\<rparr>)
     \<and> (let cp = fst (consented_perms P w);
             net = (\<exists>p\<in>set P. operator w p \<and> (is_DomainPort p \<or> is_HostPort p));
             others = env_args (environ w) cp @ static_args sv
                      @ (case ra of Some xs \<Rightarrow> xs | None \<Rightarrow> [])
         in (net \<longrightarrow> allowed_egress cp \<noteq> [])
            \<and> args srv =
                 [''run''] @ (if rm then [''--rm''] else [])
                 @ [''-i'', ''--cap-add=NET_ADMIN'', ''-e'',
                    ''PACKAGE='' @ package_name (manifest_fields m)]
                 @ fs_args cp
                 @ (if net then [''-e'', ''ALLOWED_EGRESS='' @ allowed_egress cp] else [])
                 @ env_args (environ w) cp @ static_args sv @ add_args m
                 @ [''ghcr.io/guardiagent/mcp-sandbox-'' @ registry (manifest_fields m)
                    @ '':'' @ sandbox_version w]
                 @ (case ra of Some xs \<Rightarrow> xs | None \<Rightarrow> [])
            \<and> ((\<forall>a\<in>set others. \<not> prefix ''ALLOWED_EGRESS='' a) \<longrightarrow>
                 ((\<exists>a\<in>set (args srv). prefix ''ALLOWED_EGRESS='' a) \<longleftrightarrow> net)))"
proof -
  define cp where "cp = filter (operator w) P"
  define net where "net = (\<exists>p\<in>set P. operator w p \<and> (is_DomainPort p \<or> is_HostPort p))"
  define tail where "tail = (case ra of Some xs \<Rightarrow> xs | None \<Rightarrow> [])"
  define others where "others = env_args (environ w) cp @ static_args sv @ tail"
  define flag where "flag = (if net then [''-e'', ''ALLOWED_EGRESS='' @ allowed_egress cp] else [])"
  define srv where
    "srv = \<lparr> server_name = py_or nm (MCPManifest.name (manifest_fields m) @ '' - '' @ generated_id w),
             command = ''docker'',
             args = build_args m ra sv rm cp w,
             client_session_timeout_seconds = t \<rparr>"
  have ill: "illegal m P = []" using assms by (simp add: illegal_Nil_iff)
  have b: "SandboxedMCPStdio_init m nm ra P sv t rm w = (Inr srv, w\<lparr>prompts := prompts w @ P\<rparr>)"
    unfolding srv_def cp_def by (rule init_builds [OF ill])
  have n: "allowed_egress cp \<noteq> [] \<longleftrightarrow> net"
    unfolding net_def cp_def by (auto simp: allowed_egress_Nil_iff)
  have f: "egress_args cp = flag"
    unfolding flag_def egress_args_def using n by simp
  have e: "args srv =
                 [''run''] @ (if rm then [''--rm''] else [])
                 @ [''-i'', ''--cap-add=NET_ADMIN'', ''-e'',
                    ''PACKAGE='' @ package_name (manifest_fields m)]
                 @ fs_args cp @ flag
                 @ env_args (environ w) cp @ static_args sv @ add_args m
                 @ [''ghcr.io/guardiagent/mcp-sandbox-'' @ registry (manifest_fields m)
                    @ '':'' @ sandbox_version w]
                 @ tail"
    by (simp add: build_args_def srv_def f tail_def)
  have g: "(\<exists>a\<in>set (args srv). prefix ''ALLOWED_EGRESS='' a) \<longleftrightarrow> net"
    if oth: "\<forall>a\<in>set others. \<not> prefix ''ALLOWED_EGRESS='' a"
  proof
    assume "\<exists>a\<in>set (args srv). prefix ''ALLOWED_EGRESS='' a"
    then obtain a where a: "a \<in> set (args srv)" "prefix ''ALLOWED_EGRESS='' a" by blast
    have "a \<in> set flag"
    proof (rule ccontr)
      assume nf: "a \<notin> set flag"
      from a(1) nf have "a \<in> set [''run''] \<or> a \<in> set (if rm then [''--rm''] else [])
          \<or> a \<in> set [''-i'', ''--cap-add=NET_ADMIN'', ''-e'',
                    ''PACKAGE='' @ package_name (manifest_fields m)]
          \<or> a \<in> set (fs_args cp) \<or> a \<in> set (add_args m)
          \<or> a \<in> set [''ghcr.io/guardiagent/mcp-sandbox-'' @ registry (manifest_fields m)
                    @ '':'' @ sandbox_version w]
          \<or> a \<in> set others"
        unfolding e others_def set_append by blast
      then show False
        using a(2) oth fs_args_no_egress [of a cp] add_args_no_egress [of a m]
        by (auto split: if_splits)
    qed
    then show net unfolding flag_def by (auto split: if_splits)
  next
    assume net
    then have "''ALLOWED_EGRESS='' @ allowed_egress cp \<in> set (args srv)"
      unfolding e flag_def by simp
    moreover have "prefix ''ALLOWED_EGRESS='' (''ALLOWED_EGRESS='' @ allowed_egress cp)"
      by (rule prefixI) simp
    ultimately show "\<exists>a\<in>set (args srv). prefix ''ALLOWED_EGRESS='' a" by blast
  qed
  have "SandboxedMCPStdio_init m nm ra P sv t rm w = (Inr srv, w\<lparr>prompts := prompts w @ P\<rparr>)
     \<and> (net \<longrightarrow> allowed_egress cp \<noteq> [])
     \<and> args srv =
                 [''run''] @ (if rm then [''--rm''] else [])
                 @ [''-i'', ''--cap-add=NET_ADMIN'', ''-e'',
                    ''PACKAGE='' @ package_name (manifest_fields m)]
                 @ fs_args cp @ flag
                 @ env_args (environ w) cp @ static_args sv @ add_args m
                 @ [''ghcr.io/guardiagent/mcp-sandbox-'' @ registry (manifest_fields m)
                    @ '':'' @ sandbox_version w]
                 @ tail
     \<and> ((\<forall>a\<in>set others. \<not> prefix ''ALLOWED_EGRESS='' a) \<longrightarrow>
                 ((\<exists>a\<in>set (args srv). prefix ''ALLOWED_EGRESS='' a) \<longleftrightarrow> net))"
    using b n e g by blast
  then show ?thesis
    unfolding Let_def fst_consented_perms cp_def net_def others_def flag_def tail_def
    by (rule exI [of _ srv])
qed

lemma example_validated_mixed:
  "\<forall>p\<in>set [EnvironmentVariable ''HOME'', HostPort ''10.0.0.5'' 8080].
     category p \<in> set (permissions (manifest_fields
       (example_manifest [MCP_AC_NETWORK_CLIENT, MCP_AC_SYSTEM_ENV_READ])))"
  by (simp add: example_manifest_def)

lemma example_validated_env:
  "\<forall>p\<in>set [EnvironmentVariable ''HOME''].
     category p \<in> set (permissions (manifest_fields (example_manifest [MCP_AC_SYSTEM_ENV_READ])))"
  by (simp add: example_manifest_def)

text \<open>
  Two instances. One environment permission and one host permission, both granted: the
  pair is present. One environment permission alone: the pair is left out, and no
  element of the vector begins with \<open>ALLOWED_EGRESS=\<close>.
\<close>

theorem egress_flag_presence_witness:
  "category (EnvironmentVariable ''HOME'')
     \<in> set (permissions (manifest_fields
          (example_manifest [MCP_AC_NETWORK_CLIENT, MCP_AC_SYSTEM_ENV_READ])))
   \<and> category (HostPort ''10.0.0.5'' 8080)
     \<in> set (permissions (manifest_fields
          (example_manifest [MCP_AC_NETWORK_CLIENT, MCP_AC_SYSTEM_ENV_READ])))
   \<and> operator example_world (HostPort ''10.0.0.5'' 8080)
   \<and> is_HostPort (HostPort ''10.0.0.5'' 8080)
   \<and> \<not> prefix ''ALLOWED_EGRESS='' ''-e''
   \<and> \<not> prefix ''ALLOWED_EGRESS='' ''HOME=/root''
   \<and> (\<exists>srv. fst (SandboxedMCPStdio_init
                    (example_manifest [MCP_AC_NETWORK_CLIENT, MCP_AC_SYSTEM_ENV_READ]) None None
                    [EnvironmentVariable ''HOME'', HostPort ''10.0.0.5'' 8080] [] 60 True
                    example_world) = Inr srv
          \<and> args srv = [''run'', ''--rm'', ''-i'', ''--cap-add=NET_ADMIN'', ''-e'',
                          ''PACKAGE=example-pkg'', ''-e'', ''ALLOWED_EGRESS=10.0.0.5:8080'',
                          ''-e'', ''HOME=/root'',
                          ''ghcr.io/guardiagent/mcp-sandbox-npm:latest'']
          \<and> (\<exists>a\<in>set (args srv). prefix ''ALLOWED_EGRESS='' a))
   \<and> category (EnvironmentVariable ''HOME'')
     \<in> set (permissions (manifest_fields (example_manifest [MCP_AC_SYSTEM_ENV_READ])))
   \<and> \<not> is_DomainPort (EnvironmentVariable ''HOME'')
   \<and> \<not> is_HostPort (EnvironmentVariable ''HOME'')
   \<and> (\<exists>srv. fst (SandboxedMCPStdio_init (example_manifest [MCP_AC_SYSTEM_ENV_READ]) None None
                    [EnvironmentVariable ''HOME''] [] 60 True example_world) = Inr srv
          \<and> args srv = [''run'', ''--rm'', ''-i'', ''--cap-add=NET_ADMIN'', ''-e'',
                          ''PACKAGE=example-pkg'', ''-e'', ''HOME=/root'',
                          ''ghcr.io/guardiagent/mcp-sandbox-npm:latest'']
          \<and> \<not> (\<exists>a\<in>set (args srv). prefix ''ALLOWED_EGRESS='' a))"
proof -
  have present:
    "\<exists>srv. fst (SandboxedMCPStdio_init
                    (example_manifest [MCP_AC_NETWORK_CLIENT, MCP_AC_SYSTEM_ENV_READ]) None None
                    [EnvironmentVariable ''HOME'', HostPort ''10.0.0.5'' 8080] [] 60 True
                    example_world) = Inr srv
          \<and> args srv = [''run'', ''--rm'', ''-i'', ''--cap-add=NET_ADMIN'', ''-e'',
                          ''PACKAGE=example-pkg'', ''-e'', ''ALLOWED_EGRESS=10.0.0.5:8080'',
                          ''-e'', ''HOME=/root'',
                          ''ghcr.io/guardiagent/mcp-sandbox-npm:latest'']
          \<and> (\<exists>a\<in>set (args srv). prefix ''ALLOWED_EGRESS='' a)"
    using egress_flag_presence [OF example_validated_mixed, of None None "[]" 60 True example_world]
    by (auto simp: Let_def example_manifest_def example_world_def str_int_8080 fs_args_def
          env_args_def static_args_def get_user_consent_def allowed_egress_def)
  have omitted:
    "\<exists>srv. fst (SandboxedMCPStdio_init (example_manifest [MCP_AC_SYSTEM_ENV_READ]) None None
                    [EnvironmentVariable ''HOME''] [] 60 True example_world) = Inr srv
          \<and> args srv = [''run'', ''--rm'', ''-i'', ''--cap-add=NET_ADMIN'', ''-e'',
                          ''PACKAGE=example-pkg'', ''-e'', ''HOME=/root'',
                          ''ghcr.io/guardiagent/mcp-sandbox-npm:latest'']
          \<and> \<not> (\<exists>a\<in>set (args srv). prefix ''ALLOWED_EGRESS='' a)"
    using egress_flag_presence [OF example_validated_env, of None None "[]" 60 True example_world]
    by (auto simp: Let_def example_manifest_def example_world_def fs_args_def
          env_args_def static_args_def get_user_consent_def allowed_egress_def)
  show ?thesis
    by (intro conjI present omitted) (simp_all add: example_manifest_def example_world_def)
qed

section \<open>Bind mounts of filesystem permissions\<close>

text \<open>
  Claim C4. For every validated request list and every operator, the mount section of
  the argument vector holds exactly one \<open>--mount\<close> pair per granted \<open>FSAccess\<close>, in
  request order. Its destination is the override container path when one is set (to a
  non-empty text, which is what \<open>or\<close> tests) and the host path otherwise, and
  \<open>,readonly\<close> is appended exactly when the write flag is unset.
\<close>

theorem fs_mount_entries:
  assumes "\<forall>p\<in>set P. category p \<in> set (permissions (manifest_fields m))"
  shows "\<exists>srv. SandboxedMCPStdio_init m nm ra P sv t rm w = (Inr srv, w\<lparr>prompts := prompts w @ P\<rparr>)
     \<and> (let cp = fst (consented_perms P w);
             fsp = filter (\<lambda>p. is_FSAccess p \<and> operator w p) P;
             mount = (\<lambda>fs. ''type=bind,src='' @ path fs @ '',dst=''
                        @ (case container_path fs of
                             None \<Rightarrow> path fs
                           | Some c \<Rightarrow> if c = [] then path fs else c)
                        @ (if write_flag fs then [] else '',readonly''))
         in fs_args cp = concat (map (\<lambda>fs. [''--mount'', mount fs]) fsp)
            \<and> length (fs_args cp) = 2 * length fsp
            \<and> args srv =
                 [''run''] @ (if rm then [''--rm''] else [])
                 @ [''-i'', ''--cap-add=NET_ADMIN'', ''-e'',
                    ''PACKAGE='' @ package_name (manifest_fields m)]
                 @ concat (map (\<lambda>fs. [''--mount'', mount fs]) fsp)
                 @ egress_args cp @ env_args (environ w) cp @ static_args sv @ add_args m
                 @ [''ghcr.io/guardiagent/mcp-sandbox-'' @ registry (manifest_fields m)
                    @ '':'' @ sandbox_version w]
                 @ (case ra of Some xs \<Rightarrow> xs | None \<Rightarrow> []))"
proof -
  define cp where "cp = filter (operator w) P"
  define fsp where "fsp = filter (\<lambda>p. is_FSAccess p \<and> operator w p) P"
  define mount where
    "mount = (\<lambda>fs. ''type=bind,src='' @ path fs @ '',dst=''
                        @ (case container_path fs of
                             None \<Rightarrow> path fs
                           | Some c \<Rightarrow> if c = [] then path fs else c)
                        @ (if write_flag fs then [] else '',readonly''))"
  define srv where
    "srv = \<lparr> server_name = py_or nm (MCPManifest.name (manifest_fields m) @ '' - '' @ generated_id w),
             command = ''docker'',
             args = build_args m ra sv rm cp w,
             client_session_timeout_seconds = t \<rparr>"
  have ill: "illegal m P = []" using assms by (simp add: illegal_Nil_iff)
  have b: "SandboxedMCPStdio_init m nm ra P sv t rm w = (Inr srv, w\<lparr>prompts := prompts w @ P\<rparr>)"
    unfolding srv_def cp_def by (rule init_builds [OF ill])
  have po: "py_or c p = (case c of None \<Rightarrow> p | Some x \<Rightarrow> if x = [] then p else x)" for c p
    by (cases c) simp_all
  have fp: "filter is_FSAccess cp = fsp"
    unfolding cp_def fsp_def filter_filter by (simp add: conj_commute)
  have f: "fs_args cp = concat (map (\<lambda>fs. [''--mount'', mount fs]) fsp)"
    unfolding fs_args_def fp mount_def po ..
  have l: "length (concat (map (\<lambda>fs. [''--mount'', mount fs]) fsp)) = 2 * length fsp"
    by (induction fsp) simp_all
  have e: "args srv =
                 [''run''] @ (if rm then [''--rm''] else [])
                 @ [''-i'', ''--cap-add=NET_ADMIN'', ''-e'',
                    ''PACKAGE='' @ package_name (manifest_fields m)]
                 @ concat (map (\<lambda>fs. [''--mount'', mount fs]) fsp)
                 @ egress_args cp @ env_args (environ w) cp @ static_args sv @ add_args m
                 @ [''ghcr.io/guardiagent/mcp-sandbox-'' @ registry (manifest_fields m)
                    @ '':'' @ sandbox_version w]
                 @ (case ra of Some xs \<Rightarrow> xs | None \<Rightarrow> [])"
    by (simp add: build_args_def srv_def f)
  have "SandboxedMCPStdio_init m nm ra P sv t rm w = (Inr srv, w\<lparr>prompts := prompts w @ P\<rparr>)
     \<and> fs_args cp = concat (map (\<lambda>fs. [''--mount'', mount fs]) fsp)
     \<and> length (fs_args cp) = 2 * length fsp
     \<and> args srv =
                 [''run''] @ (if rm then [''--rm''] else [])
                 @ [''-i'', ''--cap-add=NET_ADMIN'', ''-e'',
                    ''PACKAGE='' @ package_name (manifest_fields m)]
                 @ concat (map (\<lambda>fs. [''--mount'', mount fs]) fsp)
                 @ egress_args cp @ env_args (environ w) cp @ static_args sv @ add_args m
                 @ [''ghcr.io/guardiagent/mcp-sandbox-'' @ registry (manifest_fields m)
                    @ '':'' @ sandbox_version w]
                 @ (case ra of Some xs \<Rightarrow> xs | None \<Rightarrow> [])"
    using b f l e by simp
  then show ?thesis
    unfolding Let_def fst_consented_perms cp_def fsp_def mount_def
    by (rule exI [of _ srv])
qed

lemma example_validated_fs:
  "\<forall>p\<in>set [FSAccess ''/data'' None True False, FSAccess ''/srv/db'' (Some ''/db'') True True].
     category p \<in> set (permissions (manifest_fields
       (example_manifest [MCP_AC_FILESYSTEM_READ, MCP_AC_FILESYSTEM_WRITE])))"
  by (simp add: example_manifest_def)

text \<open>
  An instance: a read-only permission without override and a read-write permission with
  the override \<open>/db\<close>.
\<close>

theorem fs_mount_entries_witness:
  "category (FSAccess ''/data'' None True False)
     \<in> set (permissions (manifest_fields
          (example_manifest [MCP_AC_FILESYSTEM_READ, MCP_AC_FILESYSTEM_WRITE])))
   \<and> category (FSAccess ''/srv/db'' (Some ''/db'') True True)
     \<in> set (permissions (manifest_fields
          (example_manifest [MCP_AC_FILESYSTEM_READ, MCP_AC_FILESYSTEM_WRITE])))
   \<and> (\<exists>srv. fst (SandboxedMCPStdio_init
                    (example_manifest [MCP_AC_FILESYSTEM_READ, MCP_AC_FILESYSTEM_WRITE]) None None
                    [FSAccess ''/data'' None True False, FSAccess ''/srv/db'' (Some ''/db'') True True]
                    [] 60 True example_world) = Inr srv
          \<and> args srv = [''run'', ''--rm'', ''-i'', ''--cap-add=NET_ADMIN'', ''-e'',
                          ''PACKAGE=example-pkg'',
                          ''--mount'', ''type=bind,src=/data,dst=/data,readonly'',
                          ''--mount'', ''type=bind,src=/srv/db,dst=/db'',
                          ''ghcr.io/guardiagent/mcp-sandbox-npm:latest''])"
  using fs_mount_entries [OF example_validated_fs, of None None "[]" 60 True example_world]
  by (auto simp: Let_def example_manifest_def example_world_def egress_args_def
        env_args_def static_args_def get_user_consent_def allowed_egress_def)

section \<open>Consent denial\<close>



section \<open>Environment pass-through\<close>

lemma env_args_split:
  assumes "p \<in> set cp" and "is_EnvironmentVariable p"
  shows "\<exists>A B. env_args env cp = A @ [''-e'', name p @ ''='' @ str_optional (env (name p))] @ B"
proof -
  from assms(1) obtain xs ys where "cp = xs @ p # ys" by (auto dest: split_list)
  then have "env_args env cp =
      env_args env xs @ [''-e'', name p @ ''='' @ str_optional (env (name p))] @ env_args env ys"
    using assms(2) by (simp add: env_args_def)
  then show ?thesis by blast
qed

text \<open>
  Claim C8. For every validated request list, every granted environment permission
  whose variable the host environment holds at construction contributes the pair
  \<open>-e NAME=value\<close> with that value. The pair is part of the argument vector, a list of
  texts with no reference to the environment, and the constructor leaves the
  environment as it found it.
\<close>

theorem env_value_at_build_time:
  assumes "\<forall>p\<in>set P. category p \<in> set (permissions (manifest_fields m))"
    and "EnvironmentVariable n \<in> set P"
    and "operator w (EnvironmentVariable n)"
    and "environ w n = Some v"
  shows "\<exists>srv w'. SandboxedMCPStdio_init m nm ra P sv t rm w = (Inr srv, w')
     \<and> environ w' = environ w
     \<and> (\<exists>A B. env_args (environ w) (fst (consented_perms P w)) = A @ [''-e'', n @ ''='' @ v] @ B)
     \<and> (\<exists>A B. args srv = A @ [''-e'', n @ ''='' @ v] @ B)"
proof -
  define cp where "cp = filter (operator w) P"
  define srv where
    "srv = \<lparr> server_name = py_or nm (MCPManifest.name (manifest_fields m) @ '' - '' @ generated_id w),
             command = ''docker'',
             args = build_args m ra sv rm cp w,
             client_session_timeout_seconds = t \<rparr>"
  have ill: "illegal m P = []" using assms(1) by (simp add: illegal_Nil_iff)
  have b: "SandboxedMCPStdio_init m nm ra P sv t rm w = (Inr srv, w\<lparr>prompts := prompts w @ P\<rparr>)"
    unfolding srv_def cp_def by (rule init_builds [OF ill])
  have "EnvironmentVariable n \<in> set cp" using assms(2,3) by (simp add: cp_def)
  from env_args_split [OF this, of "environ w"] assms(4)
  obtain A B where ab: "env_args (environ w) cp = A @ [''-e'', n @ ''='' @ v] @ B" by auto
  define A' where
    "A' = [''run''] @ (if rm then [''--rm''] else [])
          @ [''-i'', ''--cap-add=NET_ADMIN'', ''-e'',
             ''PACKAGE='' @ package_name (manifest_fields m)]
          @ fs_args cp @ egress_args cp @ A"
  define B' where
    "B' = B @ static_args sv @ add_args m
          @ [''ghcr.io/guardiagent/mcp-sandbox-'' @ registry (manifest_fields m)
             @ '':'' @ sandbox_version w]
          @ (case ra of Some xs \<Rightarrow> xs | None \<Rightarrow> [])"
  have "args srv = A' @ [''-e'', n @ ''='' @ v] @ B'"
    by (simp add: srv_def build_args_def ab A'_def B'_def)
  then have c: "\<exists>A B. args srv = A @ [''-e'', n @ ''='' @ v] @ B" by blast
  have d: "\<exists>A B. env_args (environ w) cp = A @ [''-e'', n @ ''='' @ v] @ B" using ab by blast
  have e: "environ (w\<lparr>prompts := prompts w @ P\<rparr>) = environ w" by simp
  show ?thesis
    unfolding fst_consented_perms cp_def [symmetric]
    using b c d e by blast
qed

text \<open>An instance: \<open>HOME\<close>, which the example host sets to \<open>/root\<close>.\<close>

theorem env_value_at_build_time_witness:
  "category (EnvironmentVariable ''HOME'')
     \<in> set (permissions (manifest_fields (example_manifest [MCP_AC_SYSTEM_ENV_READ])))
   \<and> EnvironmentVariable ''HOME'' \<in> set [EnvironmentVariable ''HOME'']
   \<and> operator example_world (EnvironmentVariable ''HOME'')
   \<and> environ example_world ''HOME'' = Some ''/root''
   \<and> (\<exists>srv w'. SandboxedMCPStdio_init (example_manifest [MCP_AC_SYSTEM_ENV_READ]) None None
                   [EnvironmentVariable ''HOME''] [] 60 True example_world = (Inr srv, w')
          \<and> (\<exists>A B. args srv = A @ [''-e'', ''HOME=/root''] @ B))"
  using env_value_at_build_time
    [of "[EnvironmentVariable ''HOME'']" "example_manifest [MCP_AC_SYSTEM_ENV_READ]"
        "''HOME''" example_world "''/root''" None None "[]" 60 True]
  by (simp add: example_manifest_def example_world_def) blast

text \<open>
  Claim C5. The scenario of the specification: the manifest declares
  system-environment-read, the request is the environment permission \<open>API_KEY\<close>, and
  the host environment lacks \<open>API_KEY\<close>. The construction succeeds, but the pair it
  emits is \<open>API_KEY=None\<close>, the rendering of Python's \<open>None\<close>, and not \<open>API_KEY=\<close> with
  an empty value.
\<close>

theorem unset_variable_renders_None:
  "environ example_world ''API_KEY'' = None
   \<and> SandboxedMCPStdio_init (example_manifest [MCP_AC_SYSTEM_ENV_READ]) None None
        [EnvironmentVariable ''API_KEY''] [] 60 True example_world
      = (Inr \<lparr> server_name = ''Example - a1b2c3'',
               command = ''docker'',
               args = [''run'', ''--rm'', ''-i'', ''--cap-add=NET_ADMIN'', ''-e'',
                       ''PACKAGE=example-pkg'', ''-e'', ''API_KEY=None'',
                       ''ghcr.io/guardiagent/mcp-sandbox-npm:latest''],
               client_session_timeout_seconds = 60 \<rparr>,
         example_world\<lparr>prompts := [EnvironmentVariable ''API_KEY'']\<rparr>)"
  by (simp add: SandboxedMCPStdio_init_def illegal_def validate_with_manifest_perms_def
        example_manifest_def example_world_def get_user_consent_def build_args_def
        fs_args_def egress_args_def allowed_egress_def env_args_def static_args_def)

section \<open>Development manifests\<close>

text \<open>
  Claim C9. For a development manifest the constructor inserts, between the static
  variables and the image, the bind mount of \<open>code_mount\<close> onto \<open>/sandbox\<close>, the marker
  \<open>PRE_INSTALLED=true\<close> and the marker \<open>EXE=\<close> with the manifest's launch command. The
  registry manifest with the same fields, built from the same inputs, yields the same
  vector without these three entries.
\<close>

theorem dev_manifest_entries:
  assumes "\<forall>p\<in>set P. category p \<in> set (permissions d)"
  shows "\<exists>dev reg.
       SandboxedMCPStdio_init (Dev_manifest d) nm ra P sv t rm w
         = (Inr dev, w\<lparr>prompts := prompts w @ P\<rparr>)
     \<and> SandboxedMCPStdio_init (Registry_manifest (MCPManifest.truncate d)) nm ra P sv t rm w
         = (Inr reg, w\<lparr>prompts := prompts w @ P\<rparr>)
     \<and> (let cp = fst (consented_perms P w);
             base = [''run''] @ (if rm then [''--rm''] else [])
                    @ [''-i'', ''--cap-add=NET_ADMIN'', ''-e'', ''PACKAGE='' @ package_name d]
                    @ fs_args cp @ egress_args cp @ env_args (environ w) cp @ static_args sv;
             rest = [''ghcr.io/guardiagent/mcp-sandbox-'' @ registry d @ '':'' @ sandbox_version w]
                    @ (case ra of Some xs \<Rightarrow> xs | None \<Rightarrow> [])
         in args dev =
              base
              @ [''--mount'', ''type=bind,src='' @ code_mount d @ '',dst=/sandbox'',
                 ''-e'', ''PRE_INSTALLED=true'',
                 ''-e'', ''EXE='' @ exec_command d]
              @ rest
            \<and> args reg = base @ rest)"
proof -
  define cp where "cp = filter (operator w) P"
  define dev where
    "dev = \<lparr> server_name = py_or nm (MCPManifest.name (manifest_fields (Dev_manifest d))
                                      @ '' - '' @ generated_id w),
             command = ''docker'',
             args = build_args (Dev_manifest d) ra sv rm cp w,
             client_session_timeout_seconds = t \<rparr>"
  define reg where
    "reg = \<lparr> server_name = py_or nm (MCPManifest.name (manifest_fields
                                        (Registry_manifest (MCPManifest.truncate d)))
                                      @ '' - '' @ generated_id w),
             command = ''docker'',
             args = build_args (Registry_manifest (MCPManifest.truncate d)) ra sv rm cp w,
             client_session_timeout_seconds = t \<rparr>"
  have i1: "illegal (Dev_manifest d) P = []" using assms by (simp add: illegal_Nil_iff)
  have i2: "illegal (Registry_manifest (MCPManifest.truncate d)) P = []"
    using assms by (simp add: illegal_Nil_iff)
  have b1: "SandboxedMCPStdio_init (Dev_manifest d) nm ra P sv t rm w
         = (Inr dev, w\<lparr>prompts := prompts w @ P\<rparr>)"
    unfolding dev_def cp_def by (rule init_builds [OF i1])
  have b2: "SandboxedMCPStdio_init (Registry_manifest (MCPManifest.truncate d)) nm ra P sv t rm w
         = (Inr reg, w\<lparr>prompts := prompts w @ P\<rparr>)"
    unfolding reg_def cp_def by (rule init_builds [OF i2])
  define base where
    "base = [''run''] @ (if rm then [''--rm''] else [])
                    @ [''-i'', ''--cap-add=NET_ADMIN'', ''-e'', ''PACKAGE='' @ package_name d]
                    @ fs_args cp @ egress_args cp @ env_args (environ w) cp @ static_args sv"
  define rest where
    "rest = [''ghcr.io/guardiagent/mcp-sandbox-'' @ registry d @ '':'' @ sandbox_version w]
                    @ (case ra of Some xs \<Rightarrow> xs | None \<Rightarrow> [])"
  have a1: "args dev = base
              @ [''--mount'', ''type=bind,src='' @ code_mount d @ '',dst=/sandbox'',
                 ''-e'', ''PRE_INSTALLED=true'',
                 ''-e'', ''EXE='' @ exec_command d]
              @ rest"
    by (simp add: dev_def build_args_def base_def rest_def)
  have a2: "args reg = base @ rest"
    by (simp add: reg_def build_args_def base_def rest_def)
  have "SandboxedMCPStdio_init (Dev_manifest d) nm ra P sv t rm w
         = (Inr dev, w\<lparr>prompts := prompts w @ P\<rparr>)
     \<and> SandboxedMCPStdio_init (Registry_manifest (MCPManifest.truncate d)) nm ra P sv t rm w
         = (Inr reg, w\<lparr>prompts := prompts w @ P\<rparr>)
     \<and> args dev = base
              @ [''--mount'', ''type=bind,src='' @ code_mount d @ '',dst=/sandbox'',
                 ''-e'', ''PRE_INSTALLED=true'',
                 ''-e'', ''EXE='' @ exec_command d]
              @ rest
     \<and> args reg = base @ rest"
    using b1 b2 a1 a2 by blast
  then show ?thesis
    unfolding Let_def fst_consented_perms cp_def base_def rest_def
    by (intro exI [of _ dev] exI [of _ reg])
qed

text \<open>An instance: the example development manifest and its registry counterpart.\<close>

theorem dev_manifest_entries_witness:
  "category (DomainPort ''pypi.org'' 443)
     \<in> set (permissions \<lparr> MCPManifest.name = ''Example'', description = ''An example package'',
               registry = ''pypi'', package_name = ''example-pkg'',
               permissions = [MCP_AC_NETWORK_CLIENT],
               code_mount = ''/home/dev/example'', exec_command = ''python3 -m example'' \<rparr>)
   \<and> (\<exists>dev reg.
         fst (SandboxedMCPStdio_init (example_dev_manifest [MCP_AC_NETWORK_CLIENT]) None None
                [DomainPort ''pypi.org'' 443] [] 60 True example_world) = Inr dev
       \<and> fst (SandboxedMCPStdio_init
                (Registry_manifest (manifest_fields (example_dev_manifest [MCP_AC_NETWORK_CLIENT])))
                None None [DomainPort ''pypi.org'' 443] [] 60 True example_world) = Inr reg
       \<and> args dev = [''run'', ''--rm'', ''-i'', ''--cap-add=NET_ADMIN'', ''-e'',
                       ''PACKAGE=example-pkg'', ''-e'', ''ALLOWED_EGRESS=pypi.org:443'',
                       ''--mount'', ''type=bind,src=/home/dev/example,dst=/sandbox'',
                       ''-e'', ''PRE_INSTALLED=true'', ''-e'', ''EXE=python3 -m example'',
                       ''ghcr.io/guardiagent/mcp-sandbox-pypi:latest'']
       \<and> args reg = [''run'', ''--rm'', ''-i'', ''--cap-add=NET_ADMIN'', ''-e'',
                       ''PACKAGE=example-pkg'', ''-e'', ''ALLOWED_EGRESS=pypi.org:443'',
                       ''ghcr.io/guardiagent/mcp-sandbox-pypi:latest''])"
  using dev_manifest_entries
    [of "[DomainPort ''pypi.org'' 443]"
        "\<lparr> MCPManifest.name = ''Example'', description = ''An example package'',
           registry = ''pypi'', package_name = ''example-pkg'',
           permissions = [MCP_AC_NETWORK_CLIENT],
           code_mount = ''/home/dev/example'', exec_command = ''python3 -m example'' \<rparr>"
        None None "[]" 60 True example_world]
  by (auto simp: Let_def example_dev_manifest_def example_world_def str_int_443 fs_args_def
        env_args_def static_args_def egress_args_def allowed_egress_def get_user_consent_def)

section \<open>Accesses and permissions\<close>

text \<open>
  Claim C2, as stated, fails: with a manifest that declares no category and an empty
  request list, so that nothing is validated and no consent is asked, the static
  variables still reach the container (here one of them is the allow-list variable
  itself), and so does the bind mount of a development manifest's source.
\<close>

theorem static_variable_without_permission:
  "permissions (manifest_fields (example_dev_manifest [])) = []
   \<and> SandboxedMCPStdio_init (example_dev_manifest []) None None []
        [(''ALLOWED_EGRESS'', ''evil.example.com:443''), (''TOKEN'', ''s3cret'')] 60 True
        example_world
      = (Inr \<lparr> server_name = ''Example - a1b2c3'',
               command = ''docker'',
               args = [''run'', ''--rm'', ''-i'', ''--cap-add=NET_ADMIN'', ''-e'',
                       ''PACKAGE=example-pkg'',
                       ''-e'', ''ALLOWED_EGRESS=evil.example.com:443'',
                       ''-e'', ''TOKEN=s3cret'',
                       ''--mount'', ''type=bind,src=/home/dev/example,dst=/sandbox'',
                       ''-e'', ''PRE_INSTALLED=true'', ''-e'', ''EXE=python3 -m example'',
                       ''ghcr.io/guardiagent/mcp-sandbox-pypi:latest''],
               client_session_timeout_seconds = 60 \<rparr>,
         example_world)
   \<and> prompts example_world = []
   \<and> fst (consented_perms [] example_world) = []"
  by (simp add: SandboxedMCPStdio_init_def illegal_def
        example_dev_manifest_def example_world_def build_args_def
        fs_args_def egress_args_def allowed_egress_def env_args_def static_args_def)

lemma map_filter_entries:
  "e \<in> set (map f (filter Q xs) @ map g (filter R xs)) \<Longrightarrow>
   \<exists>p\<in>set xs. (Q p \<and> e = f p) \<or> (R p \<and> e = g p)"
  by auto

text \<open>
  Claim C2, amended. In every constructed invocation the mounts of lines 82 to 93, the
  entries of the allow-list of line 94 and the pass-through variables of lines 95 to 102
  each come from a requested permission that the manifest's categories cover, that the
  operator was asked about and that the operator granted. The package tag, the static
  variables and the development entries are emitted as well, without a permission.
\<close>

theorem accesses_from_consented_permissions:
  assumes "SandboxedMCPStdio_init m nm ra P sv t rm w = (Inr srv, w')"
  shows "(let cp = fst (consented_perms P w) in
      args srv =
        [''run''] @ (if rm then [''--rm''] else [])
        @ [''-i'', ''--cap-add=NET_ADMIN'', ''-e'', ''PACKAGE='' @ package_name (manifest_fields m)]
        @ fs_args cp @ egress_args cp @ env_args (environ w) cp
        @ static_args sv @ add_args m
        @ [''ghcr.io/guardiagent/mcp-sandbox-'' @ registry (manifest_fields m)
           @ '':'' @ sandbox_version w]
        @ (case ra of Some xs \<Rightarrow> xs | None \<Rightarrow> [])
      \<and> (\<forall>p\<in>set cp. p \<in> set P \<and> category p \<in> set (permissions (manifest_fields m))
                        \<and> operator w p \<and> p \<in> set (prompts w'))
      \<and> (\<forall>a\<in>set (fs_args cp). a = ''--mount'' \<or>
            (\<exists>fs\<in>set cp. is_FSAccess fs \<and>
               a = ''type=bind,src='' @ path fs @ '',dst='' @ py_or (container_path fs) (path fs)
                   @ (if write_flag fs then [] else '',readonly'')))
      \<and> (egress_args cp = [] \<or>
           (\<exists>es. egress_args cp = [''-e'', ''ALLOWED_EGRESS='' @ join '','' es]
              \<and> (\<forall>e\<in>set es. \<exists>p\<in>set cp.
                    (is_DomainPort p \<and> e = domain p @ '':'' @ str_int (port p))
                    \<or> (is_HostPort p \<and> e = host p @ '':'' @ str_int (port p)))))
      \<and> (\<forall>a\<in>set (env_args (environ w) cp). a = ''-e'' \<or>
            (\<exists>p\<in>set cp. is_EnvironmentVariable p \<and>
               a = name p @ ''='' @ str_optional (environ w (name p)))))"
proof -
  define cp where "cp = filter (operator w) P"
  have ill: "illegal m P = []"
  proof (rule ccontr)
    assume "illegal m P \<noteq> []"
    from init_raises [OF this, of nm ra sv t rm w] assms show False by simp
  qed
  from init_builds [OF ill, of nm ra sv t rm w] assms
  have srv: "args srv = build_args m ra sv rm cp w" and w': "w' = w\<lparr>prompts := prompts w @ P\<rparr>"
    by (auto simp: cp_def)
  have a: "args srv =
        [''run''] @ (if rm then [''--rm''] else [])
        @ [''-i'', ''--cap-add=NET_ADMIN'', ''-e'', ''PACKAGE='' @ package_name (manifest_fields m)]
        @ fs_args cp @ egress_args cp @ env_args (environ w) cp
        @ static_args sv @ add_args m
        @ [''ghcr.io/guardiagent/mcp-sandbox-'' @ registry (manifest_fields m)
           @ '':'' @ sandbox_version w]
        @ (case ra of Some xs \<Rightarrow> xs | None \<Rightarrow> [])"
    by (simp add: srv build_args_def)
  have b: "\<forall>p\<in>set cp. p \<in> set P \<and> category p \<in> set (permissions (manifest_fields m))
                        \<and> operator w p \<and> p \<in> set (prompts w')"
    using ill by (auto simp: cp_def w' illegal_Nil_iff)
  have c: "\<forall>a\<in>set (fs_args cp). a = ''--mount'' \<or>
            (\<exists>fs\<in>set cp. is_FSAccess fs \<and>
               a = ''type=bind,src='' @ path fs @ '',dst='' @ py_or (container_path fs) (path fs)
                   @ (if write_flag fs then [] else '',readonly''))"
    unfolding fs_args_def set_concat_pairs by auto
  have e: "\<forall>a\<in>set (env_args (environ w) cp). a = ''-e'' \<or>
            (\<exists>p\<in>set cp. is_EnvironmentVariable p \<and>
               a = name p @ ''='' @ str_optional (environ w (name p)))"
    unfolding env_args_def set_concat_pairs by auto
  define es where
    "es = map (\<lambda>p. domain p @ '':'' @ str_int (port p)) (filter is_DomainPort cp)
          @ map (\<lambda>p. host p @ '':'' @ str_int (port p)) (filter is_HostPort cp)"
  have es: "\<forall>e\<in>set es. \<exists>p\<in>set cp.
                    (is_DomainPort p \<and> e = domain p @ '':'' @ str_int (port p))
                    \<or> (is_HostPort p \<and> e = host p @ '':'' @ str_int (port p))"
    unfolding es_def by (intro ballI map_filter_entries)
  have "egress_args cp = [] \<or> egress_args cp = [''-e'', ''ALLOWED_EGRESS='' @ join '','' es]"
    by (simp add: egress_args_def allowed_egress_def es_def)
  with es have d: "egress_args cp = [] \<or>
           (\<exists>es. egress_args cp = [''-e'', ''ALLOWED_EGRESS='' @ join '','' es]
              \<and> (\<forall>e\<in>set es. \<exists>p\<in>set cp.
                    (is_DomainPort p \<and> e = domain p @ '':'' @ str_int (port p))
                    \<or> (is_HostPort p \<and> e = host p @ '':'' @ str_int (port p))))"
    by blast
  show ?thesis
    unfolding Let_def fst_consented_perms cp_def [symmetric]
    by (intro conjI a b c d e)
qed

lemma example_mixed_build:
  "SandboxedMCPStdio_init
     (example_manifest [MCP_AC_FILESYSTEM_READ, MCP_AC_NETWORK_CLIENT, MCP_AC_SYSTEM_ENV_READ])
     None None
     [FSAccess ''/data'' None True False, DomainPort ''db.example.com'' 443,
      EnvironmentVariable ''HOME'']
     [] 60 True example_world
   = (Inr \<lparr> server_name = ''Example - a1b2c3'',
            command = ''docker'',
            args = [''run'', ''--rm'', ''-i'', ''--cap-add=NET_ADMIN'', ''-e'',
                    ''PACKAGE=example-pkg'',
                    ''--mount'', ''type=bind,src=/data,dst=/data,readonly'',
                    ''-e'', ''ALLOWED_EGRESS=db.example.com:443'',
                    ''-e'', ''HOME=/root'',
                    ''ghcr.io/guardiagent/mcp-sandbox-npm:latest''],
            client_session_timeout_seconds = 60 \<rparr>,
      example_world\<lparr>prompts := [FSAccess ''/data'' None True False,
                                  DomainPort ''db.example.com'' 443,
                                  EnvironmentVariable ''HOME'']\<rparr>)"
  by (simp add: SandboxedMCPStdio_init_def illegal_def validate_with_manifest_perms_def
        example_manifest_def example_world_def get_user_consent_def build_args_def
        fs_args_def egress_args_def allowed_egress_def env_args_def static_args_def str_int_443)

text \<open>An instance with one permission of each kind, all granted.\<close>

theorem accesses_from_consented_permissions_witness:
  "SandboxedMCPStdio_init
     (example_manifest [MCP_AC_FILESYSTEM_READ, MCP_AC_NETWORK_CLIENT, MCP_AC_SYSTEM_ENV_READ])
     None None
     [FSAccess ''/data'' None True False, DomainPort ''db.example.com'' 443,
      EnvironmentVariable ''HOME'']
     [] 60 True example_world
   = (Inr \<lparr> server_name = ''Example - a1b2c3'',
            command = ''docker'',
            args = [''run'', ''--rm'', ''-i'', ''--cap-add=NET_ADMIN'', ''-e'',
                    ''PACKAGE=example-pkg'',
                    ''--mount'', ''type=bind,src=/data,dst=/data,readonly'',
                    ''-e'', ''ALLOWED_EGRESS=db.example.com:443'',
                    ''-e'', ''HOME=/root'',
                    ''ghcr.io/guardiagent/mcp-sandbox-npm:latest''],
            client_session_timeout_seconds = 60 \<rparr>,
      example_world\<lparr>prompts := [FSAccess ''/data'' None True False,
                                  DomainPort ''db.example.com'' 443,
                                  EnvironmentVariable ''HOME'']\<rparr>)
   \<and> category (FSAccess ''/data'' None True False)
       \<in> set (permissions (manifest_fields
            (example_manifest [MCP_AC_FILESYSTEM_READ, MCP_AC_NETWORK_CLIENT, MCP_AC_SYSTEM_ENV_READ])))
   \<and> category (DomainPort ''db.example.com'' 443)
       \<in> set (permissions (manifest_fields
            (example_manifest [MCP_AC_FILESYSTEM_READ, MCP_AC_NETWORK_CLIENT, MCP_AC_SYSTEM_ENV_READ])))
   \<and> category (EnvironmentVariable ''HOME'')
       \<in> set (permissions (manifest_fields
            (example_manifest [MCP_AC_FILESYSTEM_READ, MCP_AC_NETWORK_CLIENT, MCP_AC_SYSTEM_ENV_READ])))
   \<and> operator example_world (FSAccess ''/data'' None True False)
   \<and> operator example_world (DomainPort ''db.example.com'' 443)
   \<and> operator example_world (EnvironmentVariable ''HOME'')"
  using accesses_from_consented_permissions [OF example_mixed_build] example_mixed_build
  by (simp add: Let_def get_user_consent_def example_world_def)

section \<open>Paths that do not exist\<close>

text \<open>
  Claim C6, as stated, fails: the constructor never consults the file system. With a
  development manifest whose source path does not exist and a filesystem permission
  whose host path does not exist, it returns a server whose arguments mount both.
\<close>

theorem init_builds_without_paths:
  "\<not> path_exists example_world ''/home/dev/example''
   \<and> \<not> path_exists example_world ''/nowhere''
   \<and> SandboxedMCPStdio_init (example_dev_manifest [MCP_AC_FILESYSTEM_READ]) None None
        [FSAccess ''/nowhere'' None True False] [] 60 True example_world
      = (Inr \<lparr> server_name = ''Example - a1b2c3'',
               command = ''docker'',
               args = [''run'', ''--rm'', ''-i'', ''--cap-add=NET_ADMIN'', ''-e'',
                       ''PACKAGE=example-pkg'',
                       ''--mount'', ''type=bind,src=/nowhere,dst=/nowhere,readonly'',
                       ''--mount'', ''type=bind,src=/home/dev/example,dst=/sandbox'',
                       ''-e'', ''PRE_INSTALLED=true'', ''-e'', ''EXE=python3 -m example'',
                       ''ghcr.io/guardiagent/mcp-sandbox-pypi:latest''],
               client_session_timeout_seconds = 60 \<rparr>,
         example_world\<lparr>prompts := [FSAccess ''/nowhere'' None True False]\<rparr>)"
  by (simp add: SandboxedMCPStdio_init_def illegal_def validate_with_manifest_perms_def
        example_dev_manifest_def example_world_def get_user_consent_def build_args_def
        fs_args_def egress_args_def allowed_egress_def env_args_def static_args_def)

lemma travel_perms_covered:
  "illegal (travel_manifest pypi resolved_path) (travel_runtime_perms has_amadeus) = []"
  by (simp add: illegal_def validate_with_manifest_perms_def travel_manifest_def
        travel_runtime_perms_def)

text \<open>
  Claim C6, amended. The existence check is the factory's: when the travel server's
  source path does not exist, \<open>create_travel_mcp_server\<close> raises before it calls the
  constructor, so that no server is returned and no consent is requested (with the
  weather key set, the error is \<open>FileNotFoundError\<close>); when the path exists and the
  key is set, it returns a server. The constructor itself builds for every validated
  request list whatever paths exist.
\<close>

theorem missing_travel_server_path:
  "(\<not> path_exists w TRAVEL_SERVER_PATH \<longrightarrow>
      (\<exists>e w'. create_travel_mcp_server nm TRAVEL_SERVER_PATH pypi resolved_path w = (Inl e, w')
         \<and> prompts w' = prompts w
         \<and> (truthy (environ w ''OPENWEATHER_API_KEY'') \<longrightarrow>
              e = FileNotFoundError (''Travel server not found at '' @ TRAVEL_SERVER_PATH))))
   \<and> (path_exists w TRAVEL_SERVER_PATH \<and> truthy (environ w ''OPENWEATHER_API_KEY'') \<longrightarrow>
      (\<exists>srv w'. create_travel_mcp_server nm TRAVEL_SERVER_PATH pypi resolved_path w = (Inr srv, w')))
   \<and> ((\<forall>p\<in>set P. category p \<in> set (permissions (manifest_fields m))) \<longrightarrow>
      (\<forall>f. \<exists>srv. SandboxedMCPStdio_init m nm' ra P sv t rm (w\<lparr>path_exists := f\<rparr>)
                   = (Inr srv, w\<lparr>path_exists := f, prompts := prompts w @ P\<rparr>)))"
proof (intro conjI impI allI)
  assume np: "\<not> path_exists w TRAVEL_SERVER_PATH"
  show "\<exists>e w'. create_travel_mcp_server nm TRAVEL_SERVER_PATH pypi resolved_path w = (Inl e, w')
         \<and> prompts w' = prompts w
         \<and> (truthy (environ w ''OPENWEATHER_API_KEY'') \<longrightarrow>
              e = FileNotFoundError (''Travel server not found at '' @ TRAVEL_SERVER_PATH))"
    using np by (simp add: create_travel_mcp_server_def Let_def)
next
  assume ok: "path_exists w TRAVEL_SERVER_PATH \<and> truthy (environ w ''OPENWEATHER_API_KEY'')"
  show "\<exists>srv w'. create_travel_mcp_server nm TRAVEL_SERVER_PATH pypi resolved_path w = (Inr srv, w')"
    using ok by (simp add: create_travel_mcp_server_def Let_def init_builds [OF travel_perms_covered])
next
  fix f
  assume "\<forall>p\<in>set P. category p \<in> set (permissions (manifest_fields m))"
  then have "illegal m P = []" by (simp add: illegal_Nil_iff)
  from init_builds [OF this, of nm' ra sv t rm "w\<lparr>path_exists := f\<rparr>"]
  show "\<exists>srv. SandboxedMCPStdio_init m nm' ra P sv t rm (w\<lparr>path_exists := f\<rparr>)
                   = (Inr srv, w\<lparr>path_exists := f, prompts := prompts w @ P\<rparr>)"
    by simp
qed

text \<open>
  Instances: a host with the weather key set where the server path is missing, the same
  host with an existing path, and the constructor on a host where no path exists.
\<close>

theorem missing_travel_server_path_witness:
  "\<not> path_exists (example_world\<lparr>environ := [''OPENWEATHER_API_KEY'' \<mapsto> ''k3y'']\<rparr>)
        ''/opt/app/mcp-server-travel''
   \<and> truthy (environ (example_world\<lparr>environ := [''OPENWEATHER_API_KEY'' \<mapsto> ''k3y'']\<rparr>)
        ''OPENWEATHER_API_KEY'')
   \<and> create_travel_mcp_server ''Travel'' ''/opt/app/mcp-server-travel'' ''pypi''
        ''/opt/app/mcp-server-travel''
        (example_world\<lparr>environ := [''OPENWEATHER_API_KEY'' \<mapsto> ''k3y'']\<rparr>)
      = (Inl (FileNotFoundError ''Travel server not found at /opt/app/mcp-server-travel''),
         example_world\<lparr>environ := [''OPENWEATHER_API_KEY'' \<mapsto> ''k3y''],
           stdout := [''Warning: Amadeus credentials not set - will use fallback estimates'']\<rparr>)
   \<and> path_exists (example_world\<lparr>environ := [''OPENWEATHER_API_KEY'' \<mapsto> ''k3y'']\<rparr>) ''/data''
   \<and> (\<exists>srv w'. create_travel_mcp_server ''Travel'' ''/data'' ''pypi'' ''/data''
                   (example_world\<lparr>environ := [''OPENWEATHER_API_KEY'' \<mapsto> ''k3y'']\<rparr>)
                 = (Inr srv, w'))
   \<and> category (FSAccess ''/nowhere'' None True False)
       \<in> set (permissions (manifest_fields (example_dev_manifest [MCP_AC_FILESYSTEM_READ])))
   \<and> (\<exists>srv. SandboxedMCPStdio_init (example_dev_manifest [MCP_AC_FILESYSTEM_READ]) None None
               [FSAccess ''/nowhere'' None True False] [] 60 True
               (example_world\<lparr>path_exists := (\<lambda>p. False)\<rparr>)
             = (Inr srv, example_world\<lparr>path_exists := (\<lambda>p. False),
                    prompts := prompts example_world @ [FSAccess ''/nowhere'' None True False]\<rparr>))"
  using missing_travel_server_path
          [where w = "example_world\<lparr>environ := [''OPENWEATHER_API_KEY'' \<mapsto> ''k3y'']\<rparr>"
             and TRAVEL_SERVER_PATH = "''/opt/app/mcp-server-travel''"
             and resolved_path = "''/opt/app/mcp-server-travel''"
             and nm = "''Travel''" and pypi = "''pypi''" and P = "[]"]
        missing_travel_server_path
          [where w = "example_world\<lparr>environ := [''OPENWEATHER_API_KEY'' \<mapsto> ''k3y'']\<rparr>"
             and TRAVEL_SERVER_PATH = "''/data''" and resolved_path = "''/data''"
             and nm = "''Travel''" and pypi = "''pypi''" and P = "[]"]
        missing_travel_server_path
          [where w = example_world and m = "example_dev_manifest [MCP_AC_FILESYSTEM_READ]"
             and P = "[FSAccess ''/nowhere'' None True False]" and nm' = None and ra = None
             and sv = "[]" and t = 60 and rm = True]
  by (simp add: example_world_def example_dev_manifest_def create_travel_mcp_server_def)

end
